theory Spec2Isabelle
  imports Complex_Main
begin

section \<open>Numbers, timestamps and JavaScript truthiness\<close>

text \<open>
  The metrics engine is JavaScript. Its numbers are modelled as exact rationals
  (\<^typ>\<open>rat\<close>), without the rounding of double-precision arithmetic; line counts and
  millisecond timestamps are integers. A timestamp is
  the value of \<^verbatim>\<open>new Date(s).getTime()\<close> for the ISO string \<open>s\<close> that the hosting API
  returned, so subtracting two \<^verbatim>\<open>Date\<close> objects is integer subtraction. A field that
  may be \<^verbatim>\<open>undefined\<close> or \<^verbatim>\<open>null\<close> is an \<open>option\<close>.
\<close>

type_synonym timestamp = int

text \<open>\<^verbatim>\<open>Math.round\<close>: the nearest integer, a tie going towards plus infinity.\<close>

definition Math_round :: "rat \<Rightarrow> int" where
  "Math_round x = \<lfloor>x + 1 / 2\<rfloor>"

text \<open>
  \<^verbatim>\<open>Number(x.toFixed(2))\<close>: \<^verbatim>\<open>toFixed\<close> formats the absolute value, choosing the
  larger candidate on a tie, and puts the sign back.
\<close>

definition toFixed2 :: "rat \<Rightarrow> rat" where
  "toFixed2 x =
     (if x < 0 then - (of_int \<lfloor>- x * 100 + 1 / 2\<rfloor> / 100)
      else of_int \<lfloor>x * 100 + 1 / 2\<rfloor> / 100)"

text \<open>\<^verbatim>\<open>n || 0\<close> on a count that may be missing.\<close>

definition or0 :: "int option \<Rightarrow> int" where
  "or0 n = (case n of None \<Rightarrow> 0 | Some k \<Rightarrow> k)"

text \<open>A string is truthy when it is present and not empty.\<close>

definition truthy :: "string option \<Rightarrow> bool" where
  "truthy s = (case s of None \<Rightarrow> False | Some t \<Rightarrow> t \<noteq> [])"

text \<open>\<^verbatim>\<open>a || b\<close> on strings that may be missing.\<close>

definition or_str :: "string option \<Rightarrow> string option \<Rightarrow> string option" where
  "or_str a b = (if truthy a then a else b)"

text \<open>\<^verbatim>\<open>utils.js\<close>: \<^verbatim>\<open>hoursBetween\<close> and \<^verbatim>\<open>daysBetween\<close>.\<close>

definition hoursBetween :: "timestamp \<Rightarrow> timestamp \<Rightarrow> rat" where
  "hoursBetween laterDate earlierDate = of_int (laterDate - earlierDate) / 3600000"

definition daysBetween :: "timestamp \<Rightarrow> timestamp \<Rightarrow> rat" where
  "daysBetween laterDate earlierDate = of_int (laterDate - earlierDate) / 86400000"

section \<open>Pull-request maturity\<close>

subsection \<open>Data\<close>

record pr_details =
  number :: nat
  created_at :: timestamp

text \<open>A pull-request commit: \<^verbatim>\<open>sha\<close> and \<^verbatim>\<open>commit.author.date\<close>.\<close>

record pr_commit =
  sha :: string
  author_date :: timestamp

record pr_file =
  filename :: string
  additions :: "int option"
  deletions :: "int option"
  status :: "string option"

record commit_diff =
  files :: "pr_file list option"

text \<open>
  The collaborator: each call answers \<open>None\<close> where the client answers \<^verbatim>\<open>null\<close>.
\<close>

record pr_client =
  getPullRequest :: "nat \<Rightarrow> pr_details option"
  getPullRequestCommits :: "nat \<Rightarrow> pr_commit list option"
  getPullRequestFiles :: "nat \<Rightarrow> pr_file list option"
  compareCommitsDiff :: "string \<Rightarrow> string \<Rightarrow> commit_diff option"

record pr_options =
  filesToIgnore :: "string list"
  ignoreLineDeletions :: bool
  ignoreFileDeletions :: bool

record size_details =
  total_additions :: int
  total_deletions :: int
  total_changes :: int

record maturity_details =
  total_commits :: nat
  commits_after_publication :: "nat option"
  total_changes :: int
  changes_after_publication :: int
  stable_changes :: int
  first_commit_sha :: string
  last_commit_sha :: string
  baseline_commit_sha :: "string option"
  first_significant_commit_sha :: "string option"
  pr_created_at :: timestamp
  reason :: string

datatype details = Error (error: string) | Info (info: maturity_details)

record maturity_result =
  maturity_ratio :: "rat option"
  maturity_percentage :: "int option"
  details :: details

subsection \<open>File filtering and sizes\<close>

text \<open>
  \<^verbatim>\<open>pattern.replace(/\*/g, '.*').replace(/\?/g, '.')\<close>, wrapped in \<^verbatim>\<open>^\<close> and
  \<^verbatim>\<open>$\<close>. The regular-expression engine itself is the runtime's: \<open>regexTest src s\<close>
  stands for \<^verbatim>\<open>new RegExp(src).test(s)\<close> and is a parameter of the model.
\<close>

definition regexPattern :: "string \<Rightarrow> string" where
  "regexPattern pattern =
     concat (map (\<lambda>c. if c = CHR ''?'' then ''.'' else [c])
       (concat (map (\<lambda>c. if c = CHR ''*'' then ''.*'' else [c]) pattern)))"

definition shouldIgnore :: "(string \<Rightarrow> string \<Rightarrow> bool) \<Rightarrow> pr_options \<Rightarrow> pr_file \<Rightarrow> bool" where
  "shouldIgnore regexTest opts file =
     list_ex (\<lambda>pattern. regexTest (''^'' @ regexPattern pattern @ ''$'') (filename file))
       (filesToIgnore opts)"

definition filterFiles ::
  "(string \<Rightarrow> string \<Rightarrow> bool) \<Rightarrow> pr_options \<Rightarrow> pr_file list \<Rightarrow> pr_file list" where
  "filterFiles regexTest opts fs =
     filter (\<lambda>file.
       if ignoreFileDeletions opts \<and> status file = Some ''removed'' then False
       else if length (filesToIgnore opts) > 0 \<and> shouldIgnore regexTest opts file then False
       else True) fs"

text \<open>The loop of \<^verbatim>\<open>calculateSizeDetails\<close>, with its two running totals.\<close>

fun sizeLoop :: "pr_options \<Rightarrow> pr_file list \<Rightarrow> int \<Rightarrow> int \<Rightarrow> int \<times> int" where
  "sizeLoop opts [] adds dels = (adds, dels)"
| "sizeLoop opts (file # rest) adds dels =
     sizeLoop opts rest (adds + or0 (additions file))
       (if \<not> ignoreLineDeletions opts then dels + or0 (deletions file) else dels)"

definition calculateSizeDetails :: "pr_options \<Rightarrow> pr_file list \<Rightarrow> size_details" where
  "calculateSizeDetails opts fs =
     (case sizeLoop opts fs 0 0 of (adds, dels) \<Rightarrow>
        \<lparr>total_additions = adds, total_deletions = dels,
         size_details.total_changes = adds + dels\<rparr>)"

fun diffLoop :: "pr_file list \<Rightarrow> int \<Rightarrow> int" where
  "diffLoop [] changes = changes"
| "diffLoop (file # rest) changes =
     diffLoop rest (changes + (or0 (additions file) + or0 (deletions file)))"

definition calculateDiffSize :: "pr_file list \<Rightarrow> int" where
  "calculateDiffSize fs = diffLoop fs 0"

text \<open>\<^verbatim>\<open>prFiles || []\<close>, filtered and summed: the total size of the pull request.\<close>

definition prSize ::
  "(string \<Rightarrow> string \<Rightarrow> bool) \<Rightarrow> pr_options \<Rightarrow> pr_client \<Rightarrow> nat \<Rightarrow> size_details" where
  "prSize regexTest opts gh prNumber =
     calculateSizeDetails opts
       (filterFiles regexTest opts
         (case getPullRequestFiles gh prNumber of None \<Rightarrow> [] | Some fs \<Rightarrow> fs))"

subsection \<open>The decision chain of \<^verbatim>\<open>calculatePRMaturity\<close>\<close>

definition commitsWithinGracePeriod :: "timestamp \<Rightarrow> pr_commit list \<Rightarrow> pr_commit list" where
  "commitsWithinGracePeriod prCreatedAt prCommits =
     filter (\<lambda>commit.
       let commitDate = author_date commit;
           timeDiffMinutes = of_int \<bar>commitDate - prCreatedAt\<bar> / ((1000 * 60) :: rat)
       in timeDiffMinutes \<le> 5 \<or> commitDate \<le> prCreatedAt) prCommits"

definition significantCommitsAfterPR :: "timestamp \<Rightarrow> pr_commit list \<Rightarrow> pr_commit list" where
  "significantCommitsAfterPR prCreatedAt prCommits =
     filter (\<lambda>commit.
       let commitDate = author_date commit;
           timeDiffMinutes = of_int (commitDate - prCreatedAt) / ((1000 * 60) :: rat)
       in timeDiffMinutes > 5) prCommits"

text \<open>\<^verbatim>\<open>Array.prototype.findIndex\<close>: the first position that satisfies the test, if any.\<close>

fun findIndex :: "('a \<Rightarrow> bool) \<Rightarrow> 'a list \<Rightarrow> nat option" where
  "findIndex p [] = None"
| "findIndex p (x # xs) =
     (if p x then Some 0 else map_option Suc (findIndex p xs))"

text \<open>
  The commit before the first significant one, or the first commit when the first
  significant commit is at position 0. Both lists are non-empty where this is used.
\<close>

definition baselineCommit :: "pr_commit \<Rightarrow> pr_commit list \<Rightarrow> pr_commit" where
  "baselineCommit firstSignificantCommit prCommits =
     (case findIndex (\<lambda>c. sha c = sha firstSignificantCommit) prCommits of
        Some (Suc i) \<Rightarrow> prCommits ! i
      | _ \<Rightarrow> hd prCommits)"

definition errorResult :: "string \<Rightarrow> maturity_result" where
  "errorResult msg =
     \<lparr>maturity_ratio = None, maturity_percentage = None, details = Error msg\<rparr>"

definition fullyMature ::
  "nat \<Rightarrow> size_details \<Rightarrow> pr_commit list \<Rightarrow> timestamp \<Rightarrow> string \<Rightarrow> maturity_result" where
  "fullyMature n sizeDetails prCommits prCreatedAt why =
     \<lparr>maturity_ratio = Some 1, maturity_percentage = Some 100,
      details = Info
        \<lparr>total_commits = n,
         commits_after_publication = None,
         total_changes = size_details.total_changes sizeDetails,
         changes_after_publication = 0,
         stable_changes = size_details.total_changes sizeDetails,
         first_commit_sha = sha (hd prCommits),
         last_commit_sha = sha (last prCommits),
         baseline_commit_sha = None,
         first_significant_commit_sha = None,
         pr_created_at = prCreatedAt,
         reason = why\<rparr>\<rparr>"

text \<open>
  The last block of \<^verbatim>\<open>calculatePRMaturity\<close>: the ratio and the result object once
  the total and the late changes are known.
\<close>

definition measured ::
  "pr_commit list \<Rightarrow> pr_commit list \<Rightarrow> pr_commit \<Rightarrow> timestamp \<Rightarrow> int \<Rightarrow> int \<Rightarrow> maturity_result"
  where
  "measured prCommits significant baseline prCreatedAt totalChanges changesAfterPublication =
     (let stableChanges = max 0 (totalChanges - changesAfterPublication);
          maturityRatio =
            (if totalChanges > 0 then of_int stableChanges / of_int totalChanges
             else (1 :: rat));
          maturityPercentage = Math_round (maturityRatio * 100)
      in
      \<lparr>maturity_ratio = Some (of_int (Math_round (maturityRatio * 1000)) / 1000),
       maturity_percentage = Some maturityPercentage,
       details = Info
         \<lparr>total_commits = length prCommits,
          commits_after_publication = Some (length significant),
          total_changes = totalChanges,
          changes_after_publication = changesAfterPublication,
          stable_changes = stableChanges,
          first_commit_sha = sha (hd prCommits),
          last_commit_sha = sha (last prCommits),
          baseline_commit_sha = Some (sha baseline),
          first_significant_commit_sha = Some (sha (hd significant)),
          pr_created_at = prCreatedAt,
          reason = ''Calculated based on meaningful commits after publication''\<rparr>\<rparr>)"

definition calculatePRMaturity ::
  "(string \<Rightarrow> string \<Rightarrow> bool) \<Rightarrow> pr_options \<Rightarrow> pr_client \<Rightarrow> nat \<Rightarrow> maturity_result" where
  "calculatePRMaturity regexTest opts gh prNumber =
     (case getPullRequest gh prNumber of
        None \<Rightarrow> errorResult ''Could not fetch PR details''
      | Some prDetails \<Rightarrow>
     (case getPullRequestCommits gh prNumber of
        None \<Rightarrow> errorResult ''No commits found in PR''
      | Some prCommits \<Rightarrow>
     if length prCommits = 0 then errorResult ''No commits found in PR''
     else
       let prCreatedAt = created_at prDetails in
       if length prCommits = 1 then
         fullyMature 1 (prSize regexTest opts gh prNumber) prCommits prCreatedAt
           ''Single commit PR''
       else if length (commitsWithinGracePeriod prCreatedAt prCommits) = length prCommits then
         fullyMature (length prCommits) (prSize regexTest opts gh prNumber) prCommits
           prCreatedAt ''All commits within grace period or pre-existing''
       else
         let significant = significantCommitsAfterPR prCreatedAt prCommits in
         if length significant = 0 then
           fullyMature (length prCommits) (prSize regexTest opts gh prNumber) prCommits
             prCreatedAt ''No significant commits after PR publication''
         else
           let firstSignificantCommit = hd significant;
               lastCommit = last prCommits;
               baseline = baselineCommit firstSignificantCommit prCommits;
               totalPRChanges = prSize regexTest opts gh prNumber
           in
           (case compareCommitsDiff gh (sha baseline) (sha lastCommit) of
              None \<Rightarrow> errorResult ''Could not compare commits for maturity analysis''
            | Some changesAfterPublicationDiff \<Rightarrow>
                measured prCommits significant baseline prCreatedAt
                  (size_details.total_changes totalPRChanges)
                  (calculateDiffSize
                     (case files changesAfterPublicationDiff of
                        None \<Rightarrow> [] | Some fs \<Rightarrow> fs)))))"

section \<open>Deployment metrics (\<^verbatim>\<open>MetricsCollector\<close>)\<close>

subsection \<open>Data\<close>

record release =
  name :: "string option"
  tag_name :: string
  created_at :: timestamp

record tag =
  name :: string

text \<open>
  A deployment as the collector passes it around: built from a release, or the object
  that \<^verbatim>\<open>resolveTag\<close> answers. Any of its fields may be missing.
\<close>

record deployment =
  name :: "string option"
  tag :: "string option"
  sha :: "string option"
  created_at :: "timestamp option"

text \<open>
  A commit of the hosting API: \<^verbatim>\<open>sha\<close>, \<^verbatim>\<open>commit.committer.date\<close>,
  \<^verbatim>\<open>commit.author.date\<close>, \<^verbatim>\<open>commit.message\<close> and \<^verbatim>\<open>parents\<close>.
\<close>

record gh_commit =
  sha :: string
  committer_date :: "timestamp option"
  author_date :: "timestamp option"
  message :: "string option"
  parents :: "string list option"

record comparison =
  truncated :: bool
  commits :: "gh_commit list option"

record client =
  owner :: string
  repo :: string
  listReleases :: "nat \<Rightarrow> release list"
  listTags :: "nat \<Rightarrow> tag list"
  resolveTag :: "string \<Rightarrow> deployment option"
  compareCommits :: "string \<Rightarrow> string \<Rightarrow> comparison"
  getCommit :: "string \<Rightarrow> gh_commit option"

record enabled_metrics =
  deploymentFrequency :: bool
  leadTime :: bool

record options =
  includeMergeCommits :: bool
  maxReleases :: nat
  maxTags :: nat
  enabledMetrics :: enabled_metrics

record data_source =
  source :: string
  latest :: "deployment option"
  previous :: "deployment option"

record deploy_frequency =
  deployCount :: nat
  deploysPerWeek :: "rat option"

record commit_with_age =
  sha :: string
  date :: timestamp
  age :: rat
  isMerge :: bool
  message :: string

record cycle_time =
  commit_count :: nat
  avg_hours :: "rat option"
  oldest_hours :: "rat option"
  newest_hours :: "rat option"
  oldest_commit_sha :: "string option"
  newest_commit_sha :: "string option"
  newest_excludes_merges :: bool

record metrics_data =
  deploy_frequency_days :: "rat option option"
  deploy_count :: "nat option"
  cycle_time :: "cycle_time option"

record metrics =
  generated_at :: timestamp
  repo :: string
  source :: string
  latest :: deployment
  previous :: "deployment option"
  metrics :: metrics_data

subsection \<open>\<^verbatim>\<open>determineDataSource\<close>\<close>

text \<open>The deployment built from a release object; its \<open>sha\<close> is filled in afterwards.\<close>

definition fromRelease :: "release \<Rightarrow> deployment" where
  "fromRelease r =
     \<lparr>deployment.name = or_str (release.name r) (Some (tag_name r)),
      tag = Some (tag_name r),
      deployment.sha = None,
      deployment.created_at = Some (release.created_at r)\<rparr>"

text \<open>\<^verbatim>\<open>resolved?.sha\<close>\<close>

definition resolvedSha :: "deployment option \<Rightarrow> string option" where
  "resolvedSha resolved = (case resolved of None \<Rightarrow> None | Some d \<Rightarrow> deployment.sha d)"

text \<open>
  The \<^verbatim>\<open>throw new Error('No releases or tags found')\<close> is the \<open>Inl\<close> branch, carrying
  the message.
\<close>

definition determineDataSource :: "client \<Rightarrow> options \<Rightarrow> string + data_source" where
  "determineDataSource gh opts =
     (let releases = listReleases gh (maxReleases opts) in
      if length releases \<ge> 1 then
        let r0 = releases ! 0;
            latest0 = fromRelease r0;
            headResolved = resolveTag gh (tag_name r0);
            latest1 = latest0\<lparr>deployment.sha := resolvedSha headResolved\<rparr>;
            previous1 =
              (if length releases \<ge> 2 then
                 let r1 = releases ! 1;
                     baseResolved = resolveTag gh (tag_name r1)
                 in Some ((fromRelease r1)\<lparr>deployment.sha := resolvedSha baseResolved\<rparr>)
               else None)
        in Inr \<lparr>data_source.source = ''release'', data_source.latest = Some latest1,
                data_source.previous = previous1\<rparr>
      else
        let tags = listTags gh (maxTags opts) in
        if length tags = 0 then Inl ''No releases or tags found''
        else
          let latestTag = resolveTag gh (tag.name (tags ! 0));
              prevTag =
                (if length tags \<ge> 2 then resolveTag gh (tag.name (tags ! 1)) else None)
          in Inr \<lparr>data_source.source = ''tag'', data_source.latest = latestTag,
                  data_source.previous = prevTag\<rparr>)"

subsection \<open>\<^verbatim>\<open>calculateDeployFrequency\<close>\<close>

text \<open>\<^verbatim>\<open>resolved?.created_at\<close>\<close>

definition resolvedCreatedAt :: "deployment option \<Rightarrow> timestamp option" where
  "resolvedCreatedAt resolved =
     (case resolved of None \<Rightarrow> None | Some d \<Rightarrow> deployment.created_at d)"

text \<open>
  The weekly rate over a span: \<^verbatim>\<open>weeks > 0 ? Number((n / weeks).toFixed(2)) : null\<close>.
\<close>

definition perWeek :: "nat \<Rightarrow> timestamp \<Rightarrow> timestamp \<Rightarrow> rat option" where
  "perWeek n newest oldest =
     (let days = daysBetween newest oldest;
          weeks = days / 7
      in if weeks > 0 then Some (toFixed2 (of_nat n / weeks)) else None)"

definition calculateDeployFrequency :: "client \<Rightarrow> options \<Rightarrow> deploy_frequency" where
  "calculateDeployFrequency gh opts =
     (let releases = listReleases gh (maxReleases opts) in
      if length releases = 0 then
        let tags = listTags gh (maxTags opts) in
        if length tags = 0 then \<lparr>deployCount = 0, deploysPerWeek = None\<rparr>
        else if length tags = 1 then \<lparr>deployCount = 1, deploysPerWeek = None\<rparr>
        else
          let oldest = tags ! (length tags - 1);
              newest = tags ! 0;
              oldestResolved = resolveTag gh (tag.name oldest);
              newestResolved = resolveTag gh (tag.name newest)
          in
          (case (resolvedCreatedAt oldestResolved, resolvedCreatedAt newestResolved) of
             (Some oldestAt, Some newestAt) \<Rightarrow>
               \<lparr>deployCount = length tags,
                deploysPerWeek = perWeek (length tags) newestAt oldestAt\<rparr>
           | _ \<Rightarrow> \<lparr>deployCount = length tags, deploysPerWeek = None\<rparr>)
      else if length releases = 1 then \<lparr>deployCount = 1, deploysPerWeek = None\<rparr>
      else
        let oldest = releases ! (length releases - 1);
            newest = releases ! 0
        in \<lparr>deployCount = length releases,
            deploysPerWeek =
              perWeek (length releases) (release.created_at newest) (release.created_at oldest)\<rparr>)"

subsection \<open>\<^verbatim>\<open>calculateCycleTime\<close>\<close>

text \<open>
  \<^verbatim>\<open>Math.max(...xs)\<close> and \<^verbatim>\<open>Math.min(...xs)\<close>. The collector applies them to
  non-empty lists only (on an empty list JavaScript answers an infinity, which
  \<^typ>\<open>rat\<close> does not have).
\<close>

definition Math_max :: "rat list \<Rightarrow> rat" where
  "Math_max xs = fold max (tl xs) (hd xs)"

definition Math_min :: "rat list \<Rightarrow> rat" where
  "Math_min xs = fold min (tl xs) (hd xs)"

text \<open>\<^verbatim>\<open>c.commit?.committer?.date || c.commit?.author?.date\<close>\<close>

definition commitDate :: "gh_commit \<Rightarrow> timestamp option" where
  "commitDate c =
     (case committer_date c of Some d \<Rightarrow> Some d | None \<Rightarrow> gh_commit.author_date c)"

text \<open>\<^verbatim>\<open>c.parents?.length > 1 || false\<close>: a merge commit has several parents.\<close>

definition isMergeCommit :: "gh_commit \<Rightarrow> bool" where
  "isMergeCommit c = (case parents c of None \<Rightarrow> False | Some ps \<Rightarrow> length ps > 1)"

text \<open>
  One entry of \<^verbatim>\<open>commitsWithAges\<close>: the mapped object, kept by the filter
  \<^verbatim>\<open>(c) => c.date\<close> only when the commit has a date.
\<close>

definition withAge :: "timestamp \<Rightarrow> gh_commit \<Rightarrow> commit_with_age option" where
  "withAge latestCreatedAt c =
     (case commitDate c of
        None \<Rightarrow> None
      | Some d \<Rightarrow> Some
          \<lparr>commit_with_age.sha = gh_commit.sha c,
           date = d,
           age = hoursBetween latestCreatedAt d,
           isMerge = isMergeCommit c,
           commit_with_age.message =
             (case gh_commit.message c of None \<Rightarrow> [] | Some m \<Rightarrow> m)\<rparr>)"

text \<open>
  The commits of the deployment: the range \<^verbatim>\<open>previous.sha..latest.sha\<close> when the
  previous deployment has a truthy \<open>sha\<close>, otherwise the single commit at
  \<^verbatim>\<open>latest.sha\<close>.
\<close>

definition tagged :: "client \<Rightarrow> string \<Rightarrow> gh_commit list" where
  "tagged gh latestSha = (case getCommit gh latestSha of None \<Rightarrow> [] | Some c \<Rightarrow> [c])"

definition fetchCommits :: "client \<Rightarrow> string \<Rightarrow> deployment option \<Rightarrow> gh_commit list" where
  "fetchCommits gh latestSha prev =
     (case prev of
        None \<Rightarrow> tagged gh latestSha
      | Some p \<Rightarrow>
          (case deployment.sha p of
             None \<Rightarrow> tagged gh latestSha
           | Some previousSha \<Rightarrow>
               if previousSha = [] then tagged gh latestSha
               else (case commits (compareCommits gh previousSha latestSha) of
                       None \<Rightarrow> [] | Some cs \<Rightarrow> cs)))"

text \<open>
  \<^verbatim>\<open>calculateCycleTime(latest, previous)\<close> reads \<^verbatim>\<open>latest.sha\<close> and
  \<^verbatim>\<open>latest.created_at\<close> only; \<^verbatim>\<open>collectMetrics\<close> calls it after checking that both
  are present, so the model takes the two values.
\<close>

definition calculateCycleTime ::
  "client \<Rightarrow> options \<Rightarrow> string \<Rightarrow> timestamp \<Rightarrow> deployment option \<Rightarrow> cycle_time" where
  "calculateCycleTime gh opts latestSha latestCreatedAt prev =
     (let allCommits = fetchCommits gh latestSha prev;
          commitDates = List.map_filter commitDate allCommits;
          commitsWithAges = List.map_filter (withAge latestCreatedAt) allCommits;
          none = \<lparr>commit_count = length commitDates,
                  avg_hours = None, oldest_hours = None, newest_hours = None,
                  oldest_commit_sha = None, newest_commit_sha = None,
                  newest_excludes_merges = \<not> includeMergeCommits opts\<rparr>
      in
      if length commitDates > 0 \<and> length commitsWithAges > 0 then
        let ages = map age commitsWithAges;
            sum = foldl (+) 0 ages;
            oldestCommit = find (\<lambda>c. age c = Math_max ages) commitsWithAges;
            candidateCommits =
              (if \<not> includeMergeCommits opts
               then filter (\<lambda>c. \<not> isMerge c) commitsWithAges
               else commitsWithAges);
            newestCommit =
              (if length candidateCommits > 0
               then find (\<lambda>c. age c = Math_min (map age candidateCommits)) candidateCommits
               else find (\<lambda>c. age c = Math_min ages) commitsWithAges);
            ltcNewestHours =
              (if length candidateCommits > 0
               then toFixed2 (Math_min (map age candidateCommits))
               else toFixed2 (Math_min ages))
        in none
           \<lparr>avg_hours := Some (toFixed2 (sum / of_nat (length ages))),
            oldest_hours := Some (toFixed2 (Math_max ages)),
            newest_hours := Some ltcNewestHours,
            oldest_commit_sha := map_option commit_with_age.sha oldestCommit,
            newest_commit_sha := map_option commit_with_age.sha newestCommit\<rparr>
      else none)"

subsection \<open>\<^verbatim>\<open>collectMetrics\<close>\<close>

text \<open>
  The result is the metrics object, or the object \<^verbatim>\<open>{ error: msg }\<close> as \<open>Inl msg\<close>.
  \<open>now\<close> is the clock reading of \<^verbatim>\<open>new Date()\<close>.
\<close>

definition reported :: "deployment \<Rightarrow> deployment" where
  "reported d =
     \<lparr>deployment.name =
        or_str (deployment.name d) (or_str (tag d) (deployment.name d)),
      tag = or_str (tag d) (deployment.name d),
      deployment.sha = (if truthy (deployment.sha d) then deployment.sha d else None),
      deployment.created_at = deployment.created_at d\<rparr>"

definition collectMetrics :: "client \<Rightarrow> options \<Rightarrow> timestamp \<Rightarrow> string + metrics" where
  "collectMetrics gh opts now =
     (case determineDataSource gh opts of
        Inl msg \<Rightarrow> Inl (''Metrics collection failed: '' @ msg)
      | Inr ds \<Rightarrow>
          (case data_source.latest ds of
             None \<Rightarrow> Inl ''Could not resolve latest release/tag SHA or created_at''
           | Some l \<Rightarrow>
               (case (deployment.sha l, deployment.created_at l) of
                  (Some latestSha, Some latestCreatedAt) \<Rightarrow>
                    if latestSha = [] then
                      Inl ''Could not resolve latest release/tag SHA or created_at''
                    else
                      let deployFrequencyMetrics = calculateDeployFrequency gh opts;
                          enabled = enabledMetrics opts;
                          metricsData =
                            \<lparr>deploy_frequency_days =
                               (if deploymentFrequency enabled
                                then Some (deploysPerWeek deployFrequencyMetrics) else None),
                             deploy_count =
                               (if deploymentFrequency enabled
                                then Some (deployCount deployFrequencyMetrics) else None),
                             cycle_time =
                               (if leadTime enabled
                                then Some (calculateCycleTime gh opts latestSha latestCreatedAt
                                             (data_source.previous ds))
                                else None)\<rparr>
                      in Inr
                        \<lparr>generated_at = now,
                         metrics.repo = client.owner gh @ ''/'' @ client.repo gh,
                         metrics.source = data_source.source ds,
                         metrics.latest = reported l,
                         metrics.previous = map_option reported (data_source.previous ds),
                         metrics = metricsData\<rparr>
                | _ \<Rightarrow> Inl ''Could not resolve latest release/tag SHA or created_at'')))"

section \<open>Team aggregation (\<^verbatim>\<open>TeamMetricsCollector\<close>)\<close>





















section \<open>Example inputs\<close>

text \<open>
  The scenarios of \<^verbatim>\<open>debug-maturity.test.js\<close>: a pull request created at
  2024-01-01T10:00:00Z, with the test collector's default options. No ignore pattern
  is configured, so the regular-expression engine is never consulted.
\<close>

definition noMatch :: "string \<Rightarrow> string \<Rightarrow> bool" where
  "noMatch src s = False"

definition defaultOptions :: pr_options where
  "defaultOptions =
     \<lparr>filesToIgnore = [], ignoreLineDeletions = False, ignoreFileDeletions = False\<rparr>"

definition tenOClock :: timestamp where
  "tenOClock = 1704103200000"

definition minutes :: "int \<Rightarrow> int" where
  "minutes k = k * 60000"

definition changed :: "string \<Rightarrow> int \<Rightarrow> int \<Rightarrow> pr_file" where
  "changed path a d =
     \<lparr>filename = path, additions = Some a, deletions = Some d, status = None\<rparr>"

definition authored :: "string \<Rightarrow> timestamp \<Rightarrow> pr_commit" where
  "authored s t = \<lparr>pr_commit.sha = s, pr_commit.author_date = t\<rparr>"

definition prClient ::
  "pr_commit list \<Rightarrow> pr_file list \<Rightarrow> commit_diff option \<Rightarrow> pr_client" where
  "prClient cs fs diff =
     \<lparr>getPullRequest = (\<lambda>n. Some \<lparr>number = n, pr_details.created_at = tenOClock\<rparr>),
      getPullRequestCommits = (\<lambda>n. Some cs),
      getPullRequestFiles = (\<lambda>n. Some fs),
      compareCommitsDiff = (\<lambda>base head. diff)\<rparr>"

text \<open>Three commits, the last one fifteen minutes after creation: 115 lines, 20 of them late.\<close>

definition multipleCommits :: pr_client where
  "multipleCommits =
     prClient
       [authored ''commit1-sha'' (tenOClock - minutes 2),
        authored ''commit2-sha'' (tenOClock + minutes 2),
        authored ''commit3-sha'' (tenOClock + minutes 15)]
       [changed ''src/file1.js'' 50 10, changed ''src/file2.js'' 30 5,
        changed ''test/file1.test.js'' 20 0]
       (Some \<lparr>files = Some [changed ''test/file1.test.js'' 20 0]\<rparr>)"



text \<open>Four commits of mixed timing: 100 lines, 25 of them late.\<close>

definition mixedTiming :: pr_client where
  "mixedTiming =
     prClient
       [authored ''commit1-sha'' (tenOClock - minutes 10),
        authored ''commit2-sha'' (tenOClock + minutes 3),
        authored ''commit3-sha'' (tenOClock + minutes 10),
        authored ''commit4-sha'' (tenOClock + minutes 20)]
       [changed ''src/app.js'' 40 10, changed ''src/utils.js'' 20 5,
        changed ''test/app.test.js'' 15 0, changed ''test/utils.test.js'' 10 0]
       (Some \<lparr>files = Some [changed ''test/app.test.js'' 15 0,
                               changed ''test/utils.test.js'' 10 0]\<rparr>)"

text \<open>
  A file added before publication and deleted again afterwards: it is absent from the
  pull request's file list but present in the diff from the baseline to the last commit,
  so the late changes exceed the total.
\<close>

definition revertedFile :: pr_client where
  "revertedFile =
     prClient
       [authored ''commit1-sha'' (tenOClock - minutes 2),
        authored ''commit2-sha'' (tenOClock + minutes 30)]
       [changed ''src/a.js'' 5 0]
       (Some \<lparr>files = Some [changed ''src/a.js'' 5 0, changed ''src/b.js'' 0 10]\<rparr>)"


text \<open>
  Deployment histories for the collector, after \<^verbatim>\<open>metrics-collector.test.js\<close>, with
  the collector's default options. 2023-01-01T00:00:00Z is 1672531200000.
\<close>

definition collectorOptions :: options where
  "collectorOptions =
     \<lparr>includeMergeCommits = False, maxReleases = 100, maxTags = 100,
      enabledMetrics = \<lparr>deploymentFrequency = True, leadTime = True\<rparr>\<rparr>"

definition newYear :: timestamp where
  "newYear = 1672531200000"

definition hours :: "int \<Rightarrow> int" where
  "hours k = k * 3600000"

definition testClient ::
  "release list \<Rightarrow> tag list \<Rightarrow> (string \<Rightarrow> deployment option) \<Rightarrow> gh_commit list \<Rightarrow> client"
  where
  "testClient rs ts resolve cs =
     \<lparr>owner = ''test-owner'', client.repo = ''test-repo'',
      listReleases = (\<lambda>maxCount. take maxCount rs),
      listTags = (\<lambda>maxCount. take maxCount ts),
      resolveTag = resolve,
      compareCommits = (\<lambda>base head. \<lparr>truncated = False, commits = Some cs\<rparr>),
      getCommit = (\<lambda>s. case cs of [] \<Rightarrow> None | c # rest \<Rightarrow> Some c)\<rparr>"

definition committed :: "string \<Rightarrow> timestamp \<Rightarrow> string list \<Rightarrow> gh_commit" where
  "committed s t ps =
     \<lparr>gh_commit.sha = s, committer_date = Some t, gh_commit.author_date = None,
      gh_commit.message = Some ''Test commit'', parents = Some ps\<rparr>"


definition resolvesTo :: "string \<Rightarrow> string \<Rightarrow> timestamp \<Rightarrow> deployment" where
  "resolvesTo n s t =
     \<lparr>deployment.name = Some n, tag = None, deployment.sha = Some s,
      deployment.created_at = Some t\<rparr>"

text \<open>Releases \<open>v2.0.0\<close> and \<open>v1.0.0\<close>, one day apart; two tags exist as well.\<close>

definition twoReleases :: client where
  "twoReleases =
     testClient
       [\<lparr>release.name = Some ''v2.0.0'', tag_name = ''v2.0.0'',
          release.created_at = newYear + hours 24\<rparr>,
        \<lparr>release.name = Some ''v1.0.0'', tag_name = ''v1.0.0'',
          release.created_at = newYear\<rparr>]
       [\<lparr>tag.name = ''v2.0.0''\<rparr>, \<lparr>tag.name = ''v1.0.0''\<rparr>]
       (\<lambda>n. if n = ''v2.0.0'' then Some (resolvesTo n ''sha2'' (newYear + hours 24))
            else if n = ''v1.0.0'' then Some (resolvesTo n ''sha1'' newYear)
            else None)
       [committed ''commit1'' (newYear + hours 12) [''parent'']]"





definition noDeployments :: client where
  "noDeployments = testClient [] [] (\<lambda>n. None) []"







section \<open>Pull-request maturity: properties\<close>







text \<open>
  The shape of the result in the general case, for any collaborator: what is left of the
  total after the late changes are taken away, never below zero.
\<close>

lemma reason_fullyMature:
  "details (fullyMature k sz cs t why) = Info d \<Longrightarrow> reason d = why"
  by (auto simp: fullyMature_def)

lemma general_case_measured:
  assumes "details (calculatePRMaturity regexTest opts gh n) = Info d"
    and "reason d = ''Calculated based on meaningful commits after publication''"
  shows "\<exists>cs sig b t tot late.
           calculatePRMaturity regexTest opts gh n = measured cs sig b t tot late"
proof -
  have other: False
    if "details (fullyMature k sz cs t why) = Info d"
      and "why \<noteq> ''Calculated based on meaningful commits after publication''"
    for k sz cs t why
    using that assms(2) reason_fullyMature by blast
  have err: False if "details (errorResult m) = Info d" for m
    using that by (simp add: errorResult_def)
  show ?thesis
    using assms(1)
    unfolding calculatePRMaturity_def Let_def
    by (auto split: option.splits if_splits dest: err other intro!: exI)
qed

lemma general_case_shape:
  assumes "details (calculatePRMaturity regexTest opts gh n) = Info d"
    and "reason d = ''Calculated based on meaningful commits after publication''"
  shows "stable_changes d =
           max 0 (maturity_details.total_changes d - changes_after_publication d)"
    and "maturity_percentage (calculatePRMaturity regexTest opts gh n) =
           Some (Math_round
             ((if maturity_details.total_changes d > 0
               then rat_of_int (stable_changes d) / rat_of_int (maturity_details.total_changes d)
               else 1) * 100))"
proof -
  from general_case_measured [OF assms] obtain cs sig b t tot late
    where r: "calculatePRMaturity regexTest opts gh n = measured cs sig b t tot late"
    by blast
  from assms(1) have d: "details (measured cs sig b t tot late) = Info d"
    by (simp only: r)
  from d show "stable_changes d =
           max 0 (maturity_details.total_changes d - changes_after_publication d)"
    by (auto simp: measured_def Let_def)
  from d show "maturity_percentage (calculatePRMaturity regexTest opts gh n) =
           Some (Math_round
             ((if maturity_details.total_changes d > 0
               then rat_of_int (stable_changes d) / rat_of_int (maturity_details.total_changes d)
               else 1) * 100))"
    unfolding r by (auto simp: measured_def Let_def)
qed

text \<open>
  C1 (as stated): in the general case \<open>stable_changes + changes_after_publication\<close>
  equals \<open>total_changes\<close>. It fails when the diff from the baseline to the last commit is
  larger than the filtered total: with 5 lines in the file list and 15 in the late diff,
  the general case answers 0 stable lines, and 0 + 15 is not 5.
\<close>

theorem C1_sum_counterexample:
  "reason (info (details (calculatePRMaturity noMatch defaultOptions revertedFile 7))) =
     ''Calculated based on meaningful commits after publication''
   \<and> stable_changes (info (details (calculatePRMaturity noMatch defaultOptions revertedFile 7)))
       + changes_after_publication
           (info (details (calculatePRMaturity noMatch defaultOptions revertedFile 7)))
     \<noteq> maturity_details.total_changes
           (info (details (calculatePRMaturity noMatch defaultOptions revertedFile 7)))"
  by code_simp

text \<open>
  C1 (amended): in the general case \<open>stable_changes\<close> is
  \<open>max 0 (total_changes - changes_after_publication)\<close>, so it is never negative, and
  \<open>stable_changes + changes_after_publication = total_changes\<close> holds exactly when
  \<open>changes_after_publication\<close> does not exceed \<open>total_changes\<close>.
\<close>

theorem C1_stable_changes_clamped:
  assumes "details (calculatePRMaturity regexTest opts gh n) = Info d"
    and "reason d = ''Calculated based on meaningful commits after publication''"
  shows "stable_changes d =
           max 0 (maturity_details.total_changes d - changes_after_publication d)
         \<and> 0 \<le> stable_changes d
         \<and> ((stable_changes d + changes_after_publication d = maturity_details.total_changes d)
              = (changes_after_publication d \<le> maturity_details.total_changes d))"
proof -
  have "stable_changes d =
          max 0 (maturity_details.total_changes d - changes_after_publication d)"
    using assms by (rule general_case_shape(1))
  then show ?thesis by auto
qed

theorem C1_stable_changes_clamped_witness:
  "details (calculatePRMaturity noMatch defaultOptions mixedTiming 555) =
     Info (info (details (calculatePRMaturity noMatch defaultOptions mixedTiming 555)))
   \<and> reason (info (details (calculatePRMaturity noMatch defaultOptions mixedTiming 555))) =
       ''Calculated based on meaningful commits after publication''
   \<and> maturity_details.total_changes
       (info (details (calculatePRMaturity noMatch defaultOptions mixedTiming 555))) = 100
   \<and> changes_after_publication
       (info (details (calculatePRMaturity noMatch defaultOptions mixedTiming 555))) = 25
   \<and> stable_changes
       (info (details (calculatePRMaturity noMatch defaultOptions mixedTiming 555))) = 75"
proof -
  have run: "details (calculatePRMaturity noMatch defaultOptions mixedTiming 555) =
    Info (info (details (calculatePRMaturity noMatch defaultOptions mixedTiming 555)))"
    by code_simp
  have why: "reason (info (details (calculatePRMaturity noMatch defaultOptions mixedTiming 555)))
    = ''Calculated based on meaningful commits after publication''"
    by code_simp
  have tot: "maturity_details.total_changes
       (info (details (calculatePRMaturity noMatch defaultOptions mixedTiming 555))) = 100"
    by code_simp
  have late: "changes_after_publication
       (info (details (calculatePRMaturity noMatch defaultOptions mixedTiming 555))) = 25"
    by code_simp
  have stable: "stable_changes
       (info (details (calculatePRMaturity noMatch defaultOptions mixedTiming 555))) = 75"
    using C1_stable_changes_clamped [OF run why] tot late by simp
  show ?thesis
    by (intro conjI; fact)
qed





text \<open>
  C4: in the general case, a filtered total of 115 lines with 20 lines in the diff from
  the baseline to the last commit gives 95 stable lines and a maturity of 83 percent.
\<close>

theorem C4_scenario_115_20:
  assumes "details (calculatePRMaturity regexTest opts gh n) = Info d"
    and "reason d = ''Calculated based on meaningful commits after publication''"
    and "maturity_details.total_changes d = 115"
    and "changes_after_publication d = 20"
  shows "stable_changes d = 95
         \<and> maturity_percentage (calculatePRMaturity regexTest opts gh n) = Some 83"
proof -
  have s: "stable_changes d = 95"
    using general_case_shape(1) [OF assms(1,2)] assms(3,4) by simp
  have "maturity_percentage (calculatePRMaturity regexTest opts gh n) =
          Some (Math_round (rat_of_int 95 / rat_of_int 115 * 100))"
    using general_case_shape(2) [OF assms(1,2)] assms(3) s by simp
  also have "Math_round (rat_of_int 95 / rat_of_int 115 * 100) = 83"
    by code_simp
  finally show ?thesis using s by simp
qed

theorem C4_scenario_115_20_witness:
  "maturity_details.total_changes
     (info (details (calculatePRMaturity noMatch defaultOptions multipleCommits 123))) = 115
   \<and> changes_after_publication
       (info (details (calculatePRMaturity noMatch defaultOptions multipleCommits 123))) = 20
   \<and> stable_changes
       (info (details (calculatePRMaturity noMatch defaultOptions multipleCommits 123))) = 95
   \<and> maturity_percentage (calculatePRMaturity noMatch defaultOptions multipleCommits 123)
       = Some 83"
proof -
  have run: "details (calculatePRMaturity noMatch defaultOptions multipleCommits 123) =
    Info (info (details (calculatePRMaturity noMatch defaultOptions multipleCommits 123)))"
    by code_simp
  have why: "reason (info (details (calculatePRMaturity noMatch defaultOptions multipleCommits 123)))
    = ''Calculated based on meaningful commits after publication''"
    by code_simp
  have tot: "maturity_details.total_changes
       (info (details (calculatePRMaturity noMatch defaultOptions multipleCommits 123))) = 115"
    by code_simp
  have late: "changes_after_publication
       (info (details (calculatePRMaturity noMatch defaultOptions multipleCommits 123))) = 20"
    by code_simp
  have "stable_changes
       (info (details (calculatePRMaturity noMatch defaultOptions multipleCommits 123))) = 95
     \<and> maturity_percentage (calculatePRMaturity noMatch defaultOptions multipleCommits 123)
         = Some 83"
    by (rule C4_scenario_115_20 [OF run why tot late])
  then show ?thesis
    using tot late by (simp only: simp_thms)
qed



section \<open>Deployment source: properties\<close>

text \<open>
  C7: whenever the release list is not empty, the source is \<open>release\<close> and the latest
  deployment is built from the first release: its \<open>created_at\<close> is the release's own,
  its \<open>sha\<close> is the one that resolving the release's tag name gives. The tag list plays
  no part: replacing it by any other leaves the answer unchanged.
\<close>

theorem C7_releases_preferred:
  assumes "listReleases gh (maxReleases opts) = r0 # rest"
  shows "(\<exists>l p. determineDataSource gh opts =
              Inr \<lparr>data_source.source = ''release'', data_source.latest = Some l,
                   data_source.previous = p\<rparr>
            \<and> deployment.created_at l = Some (release.created_at r0)
            \<and> deployment.sha l =
                (case resolveTag gh (tag_name r0) of
                   None \<Rightarrow> None | Some resolved \<Rightarrow> deployment.sha resolved)
            \<and> tag l = Some (tag_name r0)
            \<and> deployment.name l = or_str (release.name r0) (Some (tag_name r0)))
         \<and> determineDataSource (gh\<lparr>listTags := anyTags\<rparr>) opts = determineDataSource gh opts"
  using assms
  by (simp add: determineDataSource_def Let_def fromRelease_def resolvedSha_def)

theorem C7_releases_preferred_witness:
  "(\<exists>l p. determineDataSource twoReleases collectorOptions =
              Inr \<lparr>data_source.source = ''release'', data_source.latest = Some l,
                   data_source.previous = p\<rparr>
            \<and> deployment.created_at l = Some (newYear + hours 24)
            \<and> deployment.sha l = Some ''sha2''
            \<and> tag l = Some ''v2.0.0'')
   \<and> determineDataSource (twoReleases\<lparr>listTags := (\<lambda>maxCount. [])\<rparr>) collectorOptions
       = determineDataSource twoReleases collectorOptions"
proof -
  have rs: "listReleases twoReleases (maxReleases collectorOptions) =
      \<lparr>release.name = Some ''v2.0.0'', tag_name = ''v2.0.0'',
        release.created_at = newYear + hours 24\<rparr>
      # [\<lparr>release.name = Some ''v1.0.0'', tag_name = ''v1.0.0'',
            release.created_at = newYear\<rparr>]"
    by (simp add: twoReleases_def testClient_def collectorOptions_def)
  have "resolveTag twoReleases ''v2.0.0'' = Some (resolvesTo ''v2.0.0'' ''sha2'' (newYear + hours 24))"
    by (simp add: twoReleases_def testClient_def)
  with C7_releases_preferred [OF rs, of "\<lambda>maxCount. []"] show ?thesis
    by (auto simp: resolvesTo_def)
qed

text \<open>
  C8: \<^verbatim>\<open>determineDataSource\<close> fails exactly when the release list and the tag list are
  both empty, with the message \<open>No releases or tags found\<close>; \<^verbatim>\<open>collectMetrics\<close> then
  answers an error object carrying that message, not a metrics object with null fields.
\<close>

theorem C8_no_deployments:
  "((\<exists>msg. determineDataSource gh opts = Inl msg)
      = (listReleases gh (maxReleases opts) = [] \<and> listTags gh (maxTags opts) = []))
   \<and> (listReleases gh (maxReleases opts) = [] \<and> listTags gh (maxTags opts) = []
        \<longrightarrow> determineDataSource gh opts = Inl ''No releases or tags found''
          \<and> collectMetrics gh opts now =
              Inl ''Metrics collection failed: No releases or tags found'')"
  by (auto simp: determineDataSource_def collectMetrics_def Let_def Suc_le_eq)

theorem C8_no_deployments_witness:
  "listReleases noDeployments (maxReleases collectorOptions) = []
   \<and> listTags noDeployments (maxTags collectorOptions) = []
   \<and> determineDataSource noDeployments collectorOptions = Inl ''No releases or tags found''
   \<and> collectMetrics noDeployments collectorOptions 0 =
       Inl ''Metrics collection failed: No releases or tags found''"
proof -
  have e: "listReleases noDeployments (maxReleases collectorOptions) = []
      \<and> listTags noDeployments (maxTags collectorOptions) = []"
    by (simp add: noDeployments_def testClient_def)
  with C8_no_deployments [of noDeployments collectorOptions 0] show ?thesis
    by blast
qed

section \<open>Team aggregation: properties\<close>





section \<open>Deploy frequency: properties\<close>





section \<open>Cycle time: properties\<close>

















end
